theory Spec2Isabelle
  imports Complex_Main
begin

section \<open>Floating-point values\<close>

text \<open>
  A C++ \<^verbatim>\<open>float\<close> or \<^verbatim>\<open>double\<close> is modelled by its IEEE-754 class: a finite value
  carries the real number it denotes, and the three special values are kept apart.
  Comparisons follow IEEE-754 (every ordered comparison with NaN is false, \<^verbatim>\<open>!=\<close> with
  NaN is true). Arithmetic on finite values is exact: rounding, overflow to infinity and
  the sign of zero are not modelled, and both precisions share this one type.
\<close>

datatype float = Finite real | PlusInf | MinusInf | NaN

fun pcl_isfinite :: "float \<Rightarrow> bool" where
  "pcl_isfinite (Finite a) = True"
| "pcl_isfinite PlusInf = False"
| "pcl_isfinite MinusInf = False"
| "pcl_isfinite NaN = False"

text \<open>The operators \<^verbatim>\<open><\<close>, \<^verbatim>\<open>>=\<close>, \<^verbatim>\<open><=\<close> and \<^verbatim>\<open>!=\<close>.\<close>

fun float_less :: "float \<Rightarrow> float \<Rightarrow> bool" where
  "float_less NaN b = False"
| "float_less a NaN = False"
| "float_less (Finite a) (Finite b) = (a < b)"
| "float_less (Finite a) PlusInf = True"
| "float_less (Finite a) MinusInf = False"
| "float_less MinusInf MinusInf = False"
| "float_less MinusInf b = True"
| "float_less PlusInf b = False"

fun float_ge :: "float \<Rightarrow> float \<Rightarrow> bool" where
  "float_ge NaN b = False"
| "float_ge a NaN = False"
| "float_ge a b = (\<not> float_less a b)"


definition float_neq :: "float \<Rightarrow> float \<Rightarrow> bool" where
  "float_neq a b = (a = NaN \<or> b = NaN \<or> a \<noteq> b)"

text \<open>The operators \<^verbatim>\<open>+\<close>, \<^verbatim>\<open>-\<close>, \<^verbatim>\<open>*\<close>, \<^verbatim>\<open>/\<close> and the function \<^verbatim>\<open>sqrt\<close>.\<close>

fun fadd :: "float \<Rightarrow> float \<Rightarrow> float" where
  "fadd NaN b = NaN"
| "fadd a NaN = NaN"
| "fadd (Finite a) (Finite b) = Finite (a + b)"
| "fadd PlusInf MinusInf = NaN"
| "fadd MinusInf PlusInf = NaN"
| "fadd PlusInf b = PlusInf"
| "fadd MinusInf b = MinusInf"
| "fadd (Finite a) b = b"

fun fsub :: "float \<Rightarrow> float \<Rightarrow> float" where
  "fsub NaN b = NaN"
| "fsub a NaN = NaN"
| "fsub (Finite a) (Finite b) = Finite (a - b)"
| "fsub PlusInf PlusInf = NaN"
| "fsub MinusInf MinusInf = NaN"
| "fsub PlusInf b = PlusInf"
| "fsub MinusInf b = MinusInf"
| "fsub (Finite a) PlusInf = MinusInf"
| "fsub (Finite a) MinusInf = PlusInf"

fun fmul :: "float \<Rightarrow> float \<Rightarrow> float" where
  "fmul NaN b = NaN"
| "fmul a NaN = NaN"
| "fmul (Finite a) (Finite b) = Finite (a * b)"
| "fmul (Finite a) PlusInf = (if a = 0 then NaN else if 0 < a then PlusInf else MinusInf)"
| "fmul (Finite a) MinusInf = (if a = 0 then NaN else if 0 < a then MinusInf else PlusInf)"
| "fmul PlusInf (Finite b) = (if b = 0 then NaN else if 0 < b then PlusInf else MinusInf)"
| "fmul MinusInf (Finite b) = (if b = 0 then NaN else if 0 < b then MinusInf else PlusInf)"
| "fmul PlusInf PlusInf = PlusInf"
| "fmul MinusInf MinusInf = PlusInf"
| "fmul PlusInf MinusInf = MinusInf"
| "fmul MinusInf PlusInf = MinusInf"

fun fdiv :: "float \<Rightarrow> float \<Rightarrow> float" where
  "fdiv NaN b = NaN"
| "fdiv a NaN = NaN"
| "fdiv (Finite a) (Finite b) =
     (if b = 0 then (if a = 0 then NaN else if 0 < a then PlusInf else MinusInf)
      else Finite (a / b))"
| "fdiv (Finite a) b = Finite 0"
| "fdiv PlusInf (Finite b) = (if 0 \<le> b then PlusInf else MinusInf)"
| "fdiv MinusInf (Finite b) = (if 0 \<le> b then MinusInf else PlusInf)"
| "fdiv a b = NaN"

fun fsqrt :: "float \<Rightarrow> float" where
  "fsqrt (Finite a) = (if a < 0 then NaN else Finite (sqrt a))"
| "fsqrt PlusInf = PlusInf"
| "fsqrt MinusInf = NaN"
| "fsqrt NaN = NaN"

section \<open>Data model\<close>

text \<open>
  \<^verbatim>\<open>pcl::PointXYZRGBA\<close>: the three coordinates; the colour plays no part in the pipeline.
\<close>

record PointType =
  pt_x :: float
  pt_y :: float
  pt_z :: float

text \<open>\<^verbatim>\<open>pcl::SHOT352\<close>: the array \<^verbatim>\<open>descriptor[352]\<close>, read by position.\<close>

record DescriptorType =
  descriptor :: "float list"

text \<open>\<^verbatim>\<open>pcl::Correspondence\<close>: model index, scene index, squared descriptor distance.\<close>

record Correspondence =
  index_query :: int
  index_match :: int
  distance :: float

text \<open>
  The result of \<^verbatim>\<open>nearestKSearch\<close> with \<open>k = 2\<close> on the point of a given index: the
  returned count and the two output vectors as the call leaves them; the caller
  allocates them with two entries each. The search itself is code of the point-cloud
  library and is a parameter of the model.
\<close>

type_synonym cloud_search = "nat \<Rightarrow> int \<times> (int \<times> int) \<times> (float \<times> float)"

text \<open>
  Counters and indices of type \<^verbatim>\<open>int\<close> and \<^verbatim>\<open>size_t\<close> are integers and natural numbers
  without a bound. The library addresses the elements of a cloud by \<^verbatim>\<open>int\<close>, so a cloud
  has fewer than \<open>2\<^sup>3\<^sup>1\<close> elements, and for these \<^verbatim>\<open>++n_points\<close> and
  \<^verbatim>\<open>static_cast<int> (i)\<close> are exact.
\<close>

section \<open>computeCloudResolution\<close>

function computeCloudResolution_loop ::
  "cloud_search \<Rightarrow> PointType list \<Rightarrow> nat \<Rightarrow> float \<times> int \<Rightarrow> float \<times> int" where
  "computeCloudResolution_loop tree cloud i (res, n_points) =
     (if i < length cloud then
        (if \<not> pcl_isfinite (pt_x (cloud ! i))
         then computeCloudResolution_loop tree cloud (i + 1) (res, n_points)
         else (case tree i of (nres, indices, sqr_distances) \<Rightarrow>
           if nres = 2
           then computeCloudResolution_loop tree cloud (i + 1)
                  (fadd res (fsqrt (snd sqr_distances)), n_points + 1)
           else computeCloudResolution_loop tree cloud (i + 1) (res, n_points)))
      else (res, n_points))"
  by pat_completeness auto
termination
  by (relation "measure (\<lambda>(tree, cloud, i, acc). length cloud - i)") auto

declare computeCloudResolution_loop.simps [simp del]

definition computeCloudResolution ::
  "(PointType list \<Rightarrow> cloud_search) \<Rightarrow> PointType list \<Rightarrow> float" where
  "computeCloudResolution KdTree cloud =
     (case computeCloudResolution_loop (KdTree cloud) cloud 0 (Finite 0, 0) of
        (res, n_points) \<Rightarrow>
          if n_points \<noteq> 0 then fdiv res (Finite (of_int n_points)) else res)"

section \<open>Global state and the library interface\<close>

text \<open>
  The global variables of the program. Normals and rigid transforms
  (\<^verbatim>\<open>pcl::Normal\<close>, \<^verbatim>\<open>Eigen::Matrix4f\<close>) are only handed from one library call to the
  next, so their types are left open.
\<close>

record ('n, 't) globals =
  model_filename :: string
  scene_filename :: string
  show_keypoints :: bool
  show_correspondences :: bool
  model_ss :: float
  scene_ss :: float
  rf_rad :: float
  descr_rad :: float
  cg_size :: float
  cg_thresh :: float
  model :: "PointType list"
  model_keypoints :: "PointType list"
  scene :: "PointType list"
  scene_keypoints :: "PointType list"
  model_normals :: "'n list"
  scene_normals :: "'n list"
  model_descriptors :: "DescriptorType list"
  scene_descriptors :: "DescriptorType list"
  model_scene_corrs :: "Correspondence list"
  rototranslations :: "'t list"
  clustered_corrs :: "Correspondence list list"

definition initial_globals :: "('n, 't) globals" where
  "initial_globals =
     \<lparr>model_filename = [], scene_filename = [],
      show_keypoints = False, show_correspondences = False,
      model_ss = Finite 10, scene_ss = Finite 30, rf_rad = Finite 15,
      descr_rad = Finite 20, cg_size = Finite 10, cg_thresh = Finite 5,
      model = [], model_keypoints = [], scene = [], scene_keypoints = [],
      model_normals = [], scene_normals = [],
      model_descriptors = [], scene_descriptors = [],
      model_scene_corrs = [], rototranslations = [], clustered_corrs = []\<rparr>"

text \<open>
  The calls into the point-cloud library. Their code is not part of the program, so each
  is a parameter; an output argument is the returned value, and a call is taken to return.
  \<^item> \<open>parse_argument\<close> gets the current value of the variable and returns its new value;
  \<^item> \<open>parse_file_extension_argument\<close> returns positions of \<open>argv\<close>;
  \<^item> \<open>loadPCDFile\<close> returns its return code and the cloud as the call leaves it;
  \<^item> \<open>KdTree\<close> is \<^verbatim>\<open>setInputCloud\<close> followed by \<^verbatim>\<open>nearestKSearch (i, 2, \<dots>)\<close>;
  \<^item> \<open>KdTreeFLANN\<close> is \<^verbatim>\<open>setInputCloud\<close> followed by \<^verbatim>\<open>nearestKSearch (d, 1, \<dots>)\<close>: the
    returned count and the single entry of each output vector;
  \<^item> \<open>NormalEstimationOMP\<close> gets the \<^verbatim>\<open>setKSearch\<close> value and the cloud;
  \<^item> \<open>UniformSampling\<close> gets the cloud and the search radius;
  \<^item> \<open>SHOTEstimationOMP\<close> and \<open>BOARDLocalReferenceFrameEstimation\<close> get the search
    radius, the keypoints, the normals and the search surface;
  \<^item> \<open>Hough3DGrouping\<close> gets the bin size, the threshold, the model keypoints and frames,
    the scene keypoints and frames and the correspondences, and returns both vectors
    that \<^verbatim>\<open>recognize\<close> fills;
  \<^item> \<open>transformPointCloud\<close> is the shift by \<open>(-1, 0, 0)\<close> that the viewer applies to the
    model keypoints;
  \<^item> \<open>wasStopped n\<close> is the answer of the viewer to the \<open>n\<close>-th call of
    \<^verbatim>\<open>wasStopped\<close>.
  The calls that only add a cloud or a line to the viewer return nothing that the program
  reads, and are left out.
\<close>

record ('n, 'rf, 't) pcl =
  find_switch :: "string list \<Rightarrow> string \<Rightarrow> bool"
  parse_file_extension_argument :: "string list \<Rightarrow> string \<Rightarrow> nat list"
  parse_argument :: "string list \<Rightarrow> string \<Rightarrow> float \<Rightarrow> float"
  loadPCDFile :: "string \<Rightarrow> int \<times> PointType list"
  KdTree :: "PointType list \<Rightarrow> cloud_search"
  NormalEstimationOMP :: "nat \<Rightarrow> PointType list \<Rightarrow> 'n list"
  UniformSampling :: "PointType list \<Rightarrow> float \<Rightarrow> PointType list"
  SHOTEstimationOMP ::
    "float \<Rightarrow> PointType list \<Rightarrow> 'n list \<Rightarrow> PointType list \<Rightarrow> DescriptorType list"
  KdTreeFLANN :: "DescriptorType list \<Rightarrow> DescriptorType \<Rightarrow> int \<times> int \<times> float"
  BOARDLocalReferenceFrameEstimation ::
    "float \<Rightarrow> PointType list \<Rightarrow> 'n list \<Rightarrow> PointType list \<Rightarrow> 'rf list"
  Hough3DGrouping ::
    "float \<Rightarrow> float \<Rightarrow> PointType list \<Rightarrow> 'rf list \<Rightarrow> PointType list \<Rightarrow> 'rf list \<Rightarrow>
     Correspondence list \<Rightarrow> 't list \<times> Correspondence list list"
  transformPointCloud :: "PointType list \<Rightarrow> PointType list"
  wasStopped :: "nat \<Rightarrow> bool"

section \<open>The stages of the program\<close>

text \<open>\<open>Inl code\<close> is the call \<^verbatim>\<open>exit (code)\<close>.\<close>

definition parseCommandLine ::
  "('n, 'rf, 't) pcl \<Rightarrow> string list \<Rightarrow> ('n, 't) globals \<Rightarrow> int + ('n, 't) globals" where
  "parseCommandLine lib argv g =
     (if find_switch lib argv ''-h'' then Inl 0
      else
        let filenames = parse_file_extension_argument lib argv ''.pcd'' in
        if length filenames \<noteq> 2 then Inl (- 1)
        else
          let g1 = g\<lparr>model_filename := argv ! (filenames ! 0),
                      scene_filename := argv ! (filenames ! 1)\<rparr>;
              g2 = (if find_switch lib argv ''-k'' then g1\<lparr>show_keypoints := True\<rparr> else g1);
              g3 = (if find_switch lib argv ''-c'' then g2\<lparr>show_correspondences := True\<rparr>
                    else g2)
          in Inr (g3\<lparr>model_ss := parse_argument lib argv ''--model_ss'' (model_ss g3),
                       scene_ss := parse_argument lib argv ''--scene_ss'' (scene_ss g3),
                       rf_rad := parse_argument lib argv ''--rf_rad'' (rf_rad g3),
                       descr_rad := parse_argument lib argv ''--descr_rad'' (descr_rad g3),
                       cg_size := parse_argument lib argv ''--cg_size'' (cg_size g3),
                       cg_thresh := parse_argument lib argv ''--cg_thresh'' (cg_thresh g3)\<rparr>))"

text \<open>
  The returned flag and the state: a cloud that has been read stays in the state when the
  other one fails to load.
\<close>

definition loadClouds ::
  "('n, 'rf, 't) pcl \<Rightarrow> ('n, 't) globals \<Rightarrow> bool \<times> ('n, 't) globals" where
  "loadClouds lib g =
     (case loadPCDFile lib (model_filename g) of (code, cloud) \<Rightarrow>
        if code < 0 then (False, g\<lparr>model := cloud\<rparr>)
        else
          (case loadPCDFile lib (scene_filename g) of (code', cloud') \<Rightarrow>
             if code' < 0 then (False, g\<lparr>model := cloud, scene := cloud'\<rparr>)
             else (True, g\<lparr>model := cloud, scene := cloud'\<rparr>)))"

text \<open>The conversion of the resolution to \<^verbatim>\<open>float\<close> keeps the value.\<close>

definition setUpResolution :: "('n, 'rf, 't) pcl \<Rightarrow> ('n, 't) globals \<Rightarrow> ('n, 't) globals" where
  "setUpResolution lib g =
     (let resolution = computeCloudResolution (KdTree lib) (model g) in
      if float_neq resolution (Finite 0)
      then g\<lparr>model_ss := fmul (model_ss g) resolution,
              scene_ss := fmul (scene_ss g) resolution,
              rf_rad := fmul (rf_rad g) resolution,
              descr_rad := fmul (descr_rad g) resolution,
              cg_size := fmul (cg_size g) resolution\<rparr>
      else g)"

definition computeNormals :: "('n, 'rf, 't) pcl \<Rightarrow> ('n, 't) globals \<Rightarrow> ('n, 't) globals" where
  "computeNormals lib g =
     g\<lparr>model_normals := NormalEstimationOMP lib 10 (model g),
       scene_normals := NormalEstimationOMP lib 10 (scene g)\<rparr>"

definition extractKeypoints :: "('n, 'rf, 't) pcl \<Rightarrow> ('n, 't) globals \<Rightarrow> ('n, 't) globals" where
  "extractKeypoints lib g =
     g\<lparr>model_keypoints := UniformSampling lib (model g) (model_ss g),
       scene_keypoints := UniformSampling lib (scene g) (scene_ss g)\<rparr>"

definition computeDescriptorForKeypoints ::
  "('n, 'rf, 't) pcl \<Rightarrow> ('n, 't) globals \<Rightarrow> ('n, 't) globals" where
  "computeDescriptorForKeypoints lib g =
     g\<lparr>model_descriptors :=
         SHOTEstimationOMP lib (descr_rad g) (model_keypoints g) (model_normals g) (model g),
       scene_descriptors :=
         SHOTEstimationOMP lib (descr_rad g) (scene_keypoints g) (scene_normals g) (scene g)\<rparr>"

function findModelSpaceCorrespondences_loop ::
  "(DescriptorType \<Rightarrow> int \<times> int \<times> float) \<Rightarrow> DescriptorType list \<Rightarrow> nat \<Rightarrow>
   Correspondence list \<Rightarrow> Correspondence list" where
  "findModelSpaceCorrespondences_loop match_search sd i corrs =
     (if i < length sd then
        (if \<not> pcl_isfinite (descriptor (sd ! i) ! 0)
         then findModelSpaceCorrespondences_loop match_search sd (i + 1) corrs
         else (case match_search (sd ! i) of (found_neighs, neigh_index, neigh_sqr_dist) \<Rightarrow>
           if found_neighs = 1 \<and> float_less neigh_sqr_dist (Finite (1 / 4))
           then findModelSpaceCorrespondences_loop match_search sd (i + 1)
                  (corrs @ [\<lparr>index_query = neigh_index, index_match = int i,
                              distance = neigh_sqr_dist\<rparr>])
           else findModelSpaceCorrespondences_loop match_search sd (i + 1) corrs))
      else corrs)"
  by pat_completeness auto
termination
  by (relation "measure (\<lambda>(match_search, sd, i, corrs). length sd - i)") auto

declare findModelSpaceCorrespondences_loop.simps [simp del]

definition findModelSpaceCorrespondences ::
  "('n, 'rf, 't) pcl \<Rightarrow> ('n, 't) globals \<Rightarrow> ('n, 't) globals" where
  "findModelSpaceCorrespondences lib g =
     g\<lparr>model_scene_corrs :=
         findModelSpaceCorrespondences_loop (KdTreeFLANN lib (model_descriptors g))
           (scene_descriptors g) 0 (model_scene_corrs g)\<rparr>"

definition clusteringUsingHough3D ::
  "('n, 'rf, 't) pcl \<Rightarrow> ('n, 't) globals \<Rightarrow> ('n, 't) globals" where
  "clusteringUsingHough3D lib g =
     (let model_rf = BOARDLocalReferenceFrameEstimation lib (rf_rad g)
                       (model_keypoints g) (model_normals g) (model g);
          scene_rf = BOARDLocalReferenceFrameEstimation lib (rf_rad g)
                       (scene_keypoints g) (scene_normals g) (scene g)
      in case Hough3DGrouping lib (cg_size g) (cg_thresh g) (model_keypoints g) model_rf
                (scene_keypoints g) scene_rf (model_scene_corrs g) of
           (transforms, clusters) \<Rightarrow>
             g\<lparr>rototranslations := transforms, clustered_corrs := clusters\<rparr>)"

text \<open>
  \<^verbatim>\<open>outputResults\<close> prints, for every transform, the instance number, the size of
  \<^verbatim>\<open>clustered_corrs[i]\<close> and the transform. The subscript on the vector is unchecked in
  C++; reading past its end is the error \<open>OutOfRange\<close> here, and the run stops with it.
  The member \<^verbatim>\<open>at\<close> of a cloud checks its index and throws \<^verbatim>\<open>std::out_of_range\<close>, which
  nothing catches: the error \<open>At_out_of_range\<close>.
\<close>

datatype error = OutOfRange | At_out_of_range

function outputResults_loop ::
  "'t list \<Rightarrow> Correspondence list list \<Rightarrow> nat \<Rightarrow> (nat \<times> nat \<times> 't) list \<Rightarrow>
   error + (nat \<times> nat \<times> 't) list" where
  "outputResults_loop transforms clusters i out =
     (if i < length transforms then
        (if i < length clusters
         then outputResults_loop transforms clusters (i + 1)
                (out @ [(i + 1, length (clusters ! i), transforms ! i)])
         else Inl OutOfRange)
      else Inr out)"
  by pat_completeness auto
termination
  by (relation "measure (\<lambda>(transforms, clusters, i, out). length transforms - i)") auto

declare outputResults_loop.simps [simp del]

definition outputResults :: "('n, 't) globals \<Rightarrow> error + (nat \<times> nat \<times> 't) list" where
  "outputResults g = outputResults_loop (rototranslations g) (clustered_corrs g) 0 []"

section \<open>visualization\<close>

text \<open>
  \<^verbatim>\<open>cloud->at (k)\<close> for an \<^verbatim>\<open>int\<close> \<open>k\<close>: the index is converted to \<^verbatim>\<open>size_t\<close>, so a negative
  one is past the end of every cloud.
\<close>

definition cloud_at :: "PointType list \<Rightarrow> int \<Rightarrow> error + PointType" where
  "cloud_at cloud k =
     (if 0 \<le> k \<and> nat k < length cloud then Inr (cloud ! nat k) else Inl At_out_of_range)"

text \<open>
  The inner loop: the end points of the line drawn for each Correspondence of one
  instance, in order.
\<close>

fun correspondence_lines ::
  "PointType list \<Rightarrow> PointType list \<Rightarrow> Correspondence list \<Rightarrow>
   error + (PointType \<times> PointType) list" where
  "correspondence_lines off_scene_model_keypoints scene_kp [] = Inr []"
| "correspondence_lines off_scene_model_keypoints scene_kp (c # cs) =
     (case cloud_at off_scene_model_keypoints (index_query c) of
        Inl e \<Rightarrow> Inl e
      | Inr model_point \<Rightarrow>
          (case cloud_at scene_kp (index_match c) of
             Inl e \<Rightarrow> Inl e
           | Inr scene_point \<Rightarrow>
               (case correspondence_lines off_scene_model_keypoints scene_kp cs of
                  Inl e \<Rightarrow> Inl e
                | Inr lines \<Rightarrow> Inr ((model_point, scene_point) # lines))))"

text \<open>The loop over the instances: the lines drawn for each of them.\<close>

function visualization_loop ::
  "bool \<Rightarrow> PointType list \<Rightarrow> PointType list \<Rightarrow> 't list \<Rightarrow> Correspondence list list \<Rightarrow>
   nat \<Rightarrow> (PointType \<times> PointType) list list \<Rightarrow> error + (PointType \<times> PointType) list list" where
  "visualization_loop show_corrs off_scene_model_keypoints scene_kp transforms clusters i drawn =
     (if i < length transforms then
        (if show_corrs then
           (if i < length clusters then
              (case correspondence_lines off_scene_model_keypoints scene_kp (clusters ! i) of
                 Inl e \<Rightarrow> Inl e
               | Inr lines \<Rightarrow>
                   visualization_loop show_corrs off_scene_model_keypoints scene_kp
                     transforms clusters (i + 1) (drawn @ [lines]))
            else Inl OutOfRange)
         else visualization_loop show_corrs off_scene_model_keypoints scene_kp
                transforms clusters (i + 1) (drawn @ [[]]))
      else Inr drawn)"
  by pat_completeness auto
termination
  by (relation "measure (\<lambda>(show_corrs, off_kp, scene_kp, transforms, clusters, i, drawn).
        length transforms - i)") auto

declare visualization_loop.simps [simp del]

text \<open>
  The loop \<^verbatim>\<open>while (!viewer.wasStopped ()) viewer.spinOnce ()\<close> from the \<open>n\<close>-th call on: the
  number of the call that ends it, and \<open>None\<close> when the viewer is never stopped.
\<close>

partial_function (option) spin :: "(nat \<Rightarrow> bool) \<Rightarrow> nat \<Rightarrow> nat option" where
  "spin stopped n = (if stopped n then Some n else spin stopped (n + 1))"

text \<open>
  The shifted model keypoints exist only when keypoints or correspondences are shown;
  otherwise the cloud is empty. The result is the lines drawn, an error, or \<open>None\<close> when
  the viewer is never stopped.
\<close>

definition visualization ::
  "('n, 'rf, 't) pcl \<Rightarrow> ('n, 't) globals \<Rightarrow> (error + (PointType \<times> PointType) list list) option" where
  "visualization lib g =
     (let off_scene_model_keypoints =
            (if show_correspondences g \<or> show_keypoints g
             then transformPointCloud lib (model_keypoints g) else [])
      in case visualization_loop (show_correspondences g) off_scene_model_keypoints
                (scene_keypoints g) (rototranslations g) (clustered_corrs g) 0 [] of
           Inl e \<Rightarrow> Some (Inl e)
         | Inr drawn \<Rightarrow>
             (case spin (wasStopped lib) 0 of
                None \<Rightarrow> None
              | Some n \<Rightarrow> Some (Inr drawn)))"

section \<open>main\<close>

text \<open>
  A run of \<^verbatim>\<open>main\<close>: how it ends, the stage functions it has called, in order, and the
  global state it leaves. A run ends with an exit status (\<^verbatim>\<open>exit\<close> or \<^verbatim>\<open>return\<close>), with
  an error, or not at all, when the viewer is never stopped.
\<close>

datatype stage =
  LoadClouds | SetUpResolution | ComputeNormals | ExtractKeypoints
  | ComputeDescriptorForKeypoints | FindModelSpaceCorrespondences | ClusteringUsingHough3D
  | OutputResults | Visualization

datatype outcome = Returned int | Failed error | NotStopped

record ('n, 't) run =
  status :: outcome
  stages :: "stage list"
  final :: "('n, 't) globals"

definition call :: "stage \<Rightarrow> (('n, 't) globals \<Rightarrow> ('n, 't) globals) \<Rightarrow> ('n, 't) run \<Rightarrow> ('n, 't) run" where
  "call st f r = r\<lparr>stages := stages r @ [st], final := f (final r)\<rparr>"

definition main :: "('n, 'rf, 't) pcl \<Rightarrow> string list \<Rightarrow> ('n, 't) run" where
  "main lib argv =
     (case parseCommandLine lib argv initial_globals of
        Inl code \<Rightarrow> \<lparr>status = Returned code, stages = [], final = initial_globals\<rparr>
      | Inr g \<Rightarrow>
          (case loadClouds lib g of
             (False, g') \<Rightarrow> \<lparr>status = Returned (- 1), stages = [LoadClouds], final = g'\<rparr>
           | (True, g') \<Rightarrow>
               (let r = call ClusteringUsingHough3D (clusteringUsingHough3D lib)
                         (call FindModelSpaceCorrespondences (findModelSpaceCorrespondences lib)
                         (call ComputeDescriptorForKeypoints (computeDescriptorForKeypoints lib)
                         (call ExtractKeypoints (extractKeypoints lib)
                         (call ComputeNormals (computeNormals lib)
                         (call SetUpResolution (setUpResolution lib)
                            \<lparr>status = Returned 0, stages = [LoadClouds], final = g'\<rparr>)))))
                in case outputResults (final r) of
                     Inl e \<Rightarrow> r\<lparr>status := Failed e, stages := stages r @ [OutputResults]\<rparr>
                   | Inr report \<Rightarrow>
                       (case visualization lib (final r) of
                          None \<Rightarrow>
                            r\<lparr>status := NotStopped,
                              stages := stages r @ [OutputResults, Visualization]\<rparr>
                        | Some (Inl e) \<Rightarrow>
                            r\<lparr>status := Failed e,
                              stages := stages r @ [OutputResults, Visualization]\<rparr>
                        | Some (Inr drawn) \<Rightarrow>
                            r\<lparr>status := Returned 0,
                              stages := stages r @ [OutputResults, Visualization]\<rparr>))))"

section \<open>Notions used to state the properties\<close>

text \<open>A point all of whose coordinates are finite.\<close>

definition finite_coordinates :: "PointType \<Rightarrow> bool" where
  "finite_coordinates p =
     (pcl_isfinite (pt_x p) \<and> pcl_isfinite (pt_y p) \<and> pcl_isfinite (pt_z p))"

text \<open>
  The mean, over the positions below \<open>n\<close> that \<open>sel\<close> selects and whose query returns
  exactly 2 results, of the distance to the second neighbour; 0 when there is none.
\<close>

definition mean_second_distance :: "(nat \<Rightarrow> bool) \<Rightarrow> cloud_search \<Rightarrow> nat \<Rightarrow> float" where
  "mean_second_distance sel tree n =
     (let ds = map (\<lambda>i. fsqrt (snd (snd (snd (tree i)))))
                 (filter (\<lambda>i. sel i \<and> fst (tree i) = 2) [0..<n])
      in if ds = [] then Finite 0
         else fdiv (foldl fadd (Finite 0) ds) (Finite (real (length ds))))"

text \<open>
  The squared Euclidean distance of two points and of two descriptors, in floating-point
  arithmetic, and the distance of two points. A descriptor has 352 components.
\<close>

definition squared_distance :: "PointType \<Rightarrow> PointType \<Rightarrow> float" where
  "squared_distance p q =
     fadd (fadd (fmul (fsub (pt_x p) (pt_x q)) (fsub (pt_x p) (pt_x q)))
                (fmul (fsub (pt_y p) (pt_y q)) (fsub (pt_y p) (pt_y q))))
          (fmul (fsub (pt_z p) (pt_z q)) (fsub (pt_z p) (pt_z q)))"


definition descriptor_squared_distance :: "DescriptorType \<Rightarrow> DescriptorType \<Rightarrow> float" where
  "descriptor_squared_distance d m =
     foldl fadd (Finite 0)
       (map (\<lambda>j. fmul (fsub (descriptor d ! j) (descriptor m ! j))
                      (fsub (descriptor d ! j) (descriptor m ! j)))
          [0..<352])"

text \<open>
  The scene descriptors that pass both tests of the matching loop, and the
  Correspondence built for position \<open>i\<close>.
\<close>

definition accepted ::
  "(DescriptorType \<Rightarrow> int \<times> int \<times> float) \<Rightarrow> DescriptorType list \<Rightarrow> nat \<Rightarrow> bool" where
  "accepted match_search sd i =
     (pcl_isfinite (descriptor (sd ! i) ! 0) \<and> fst (match_search (sd ! i)) = 1
      \<and> float_less (snd (snd (match_search (sd ! i)))) (Finite (1 / 4)))"

definition emitted ::
  "(DescriptorType \<Rightarrow> int \<times> int \<times> float) \<Rightarrow> DescriptorType list \<Rightarrow> nat \<Rightarrow> Correspondence" where
  "emitted match_search sd i =
     \<lparr>index_query = fst (snd (match_search (sd ! i))), index_match = int i,
      distance = snd (snd (match_search (sd ! i)))\<rparr>"

text \<open>The Correspondences that one call of the matcher appends to the global vector.\<close>

definition new_corrs :: "('n, 'rf, 't) pcl \<Rightarrow> ('n, 't) globals \<Rightarrow> Correspondence list" where
  "new_corrs lib g =
     drop (length (model_scene_corrs g))
       (model_scene_corrs (findModelSpaceCorrespondences lib g))"

text \<open>The six scale parameters of a state.\<close>

definition parameters ::
  "('n, 't) globals \<Rightarrow> float \<times> float \<times> float \<times> float \<times> float \<times> float" where
  "parameters g = (model_ss g, scene_ss g, rf_rad g, descr_rad g, cg_size g, cg_thresh g)"


section \<open>The spatial index and the keypoint sampler of the specification\<close>



text \<open>
  Modelled from the spec: a spatial index that meets this contract by exhaustive search.
  The stored elements with finite entries are ordered by their squared distance to the
  query; a query with a non-finite entry returns nothing. Output entries beyond the
  returned count stay 0, as allocated.
\<close>

fun the_real :: "float \<Rightarrow> real" where
  "the_real (Finite a) = a"
| "the_real PlusInf = 0"
| "the_real MinusInf = 0"
| "the_real NaN = 0"

definition kNearest_points :: "PointType list \<Rightarrow> nat \<Rightarrow> nat list" where
  "kNearest_points cloud i =
     sort_key (\<lambda>j. the_real (squared_distance (cloud ! i) (cloud ! j)))
       (filter (\<lambda>j. finite_coordinates (cloud ! j)) [0..<length cloud])"

definition exhaustive_search2 :: "PointType list \<Rightarrow> cloud_search" where
  "exhaustive_search2 cloud i =
     (if \<not> finite_coordinates (cloud ! i) then (0, (0, 0), (Finite 0, Finite 0))
      else
        (case kNearest_points cloud i of
           [] \<Rightarrow> (0, (0, 0), (Finite 0, Finite 0))
         | [a] \<Rightarrow> (1, (int a, 0), (squared_distance (cloud ! i) (cloud ! a), Finite 0))
         | a # b # rest \<Rightarrow>
             (2, (int a, int b),
              (squared_distance (cloud ! i) (cloud ! a),
               squared_distance (cloud ! i) (cloud ! b)))))"

definition kNearest_descriptors :: "DescriptorType list \<Rightarrow> DescriptorType \<Rightarrow> nat list" where
  "kNearest_descriptors md d =
     sort_key (\<lambda>j. the_real (descriptor_squared_distance d (md ! j)))
       (filter (\<lambda>j. list_all pcl_isfinite (descriptor (md ! j))) [0..<length md])"

definition exhaustive_search1 ::
  "DescriptorType list \<Rightarrow> DescriptorType \<Rightarrow> int \<times> int \<times> float" where
  "exhaustive_search1 md d =
     (if \<not> list_all pcl_isfinite (descriptor d) then (0, 0, Finite 0)
      else
        (case kNearest_descriptors md d of
           [] \<Rightarrow> (0, 0, Finite 0)
         | a # rest \<Rightarrow> (1, int a, descriptor_squared_distance d (md ! a))))"



section \<open>Concrete inputs\<close>

text \<open>
  Two points at distance 2; the same cloud followed by a point whose \<open>x\<close> is finite and
  whose \<open>y\<close> is not; a single point.
\<close>

definition example_cloud :: "PointType list" where
  "example_cloud =
     [\<lparr>pt_x = Finite 0, pt_y = Finite 0, pt_z = Finite 0\<rparr>,
      \<lparr>pt_x = Finite 2, pt_y = Finite 0, pt_z = Finite 0\<rparr>]"


definition example_cloud_single :: "PointType list" where
  "example_cloud_single = [\<lparr>pt_x = Finite 0, pt_y = Finite 0, pt_z = Finite 0\<rparr>]"

text \<open>
  A descriptor that is \<open>a\<close> in the first component and 0 in all others. One model
  descriptor, at 0. Five scene descriptors: at 0; all NaN; 0 in the first component and
  NaN in the second; at 1; at 1/4.
\<close>

definition example_descriptor :: "real \<Rightarrow> DescriptorType" where
  "example_descriptor a = \<lparr>descriptor = Finite a # replicate 351 (Finite 0)\<rparr>"

definition example_model_descriptors :: "DescriptorType list" where
  "example_model_descriptors = [example_descriptor 0]"

definition example_descriptors :: "DescriptorType list" where
  "example_descriptors =
     [example_descriptor 0,
      \<lparr>descriptor = replicate 352 NaN\<rparr>,
      \<lparr>descriptor = Finite 0 # NaN # replicate 350 (Finite 0)\<rparr>,
      example_descriptor 1,
      example_descriptor (1 / 4)]"

text \<open>
  A library for concrete runs: switches and options are looked up in the arguments after
  the program name, an option value \<open>-1\<close> is read as the number, both files hold
  \<open>example_cloud\<close>, both searches are exhaustive, the sampler keeps every point, a
  descriptor has the \<open>x\<close> of its keypoint in the first component, the clusterer finds no
  instance, and the viewer is stopped at the third call.
\<close>

definition example_pcl :: "(unit, unit, nat) pcl" where
  "example_pcl =
     \<lparr>find_switch = (\<lambda>argv s. s \<in> set (tl argv)),
      parse_file_extension_argument =
        (\<lambda>argv ext. filter (\<lambda>i. drop (length (argv ! i) - length ext) (argv ! i) = ext)
                       [1..<length argv]),
      parse_argument =
        (\<lambda>argv name val.
           case dropWhile (\<lambda>a. a \<noteq> name) (tl argv) of
             a # b # rest \<Rightarrow> if b = ''-1'' then Finite (- 1) else Finite 0
           | _ \<Rightarrow> val),
      loadPCDFile =
        (\<lambda>name. if name = ''model.pcd'' \<or> name = ''scene.pcd'' then (0, example_cloud)
                 else (- 1, [])),
      KdTree = exhaustive_search2,
      NormalEstimationOMP = (\<lambda>k cloud. map (\<lambda>p. ()) cloud),
      UniformSampling = (\<lambda>cloud radius. cloud),
      SHOTEstimationOMP =
        (\<lambda>radius keypoints normals surface.
           map (\<lambda>p. \<lparr>descriptor = pt_x p # replicate 351 (Finite 0)\<rparr>) keypoints),
      KdTreeFLANN = exhaustive_search1,
      BOARDLocalReferenceFrameEstimation =
        (\<lambda>radius keypoints normals surface. map (\<lambda>p. ()) keypoints),
      Hough3DGrouping =
        (\<lambda>bin_size thresh model_kp model_rf scene_kp scene_rf corrs. ([], [])),
      transformPointCloud = map (\<lambda>p. p\<lparr>pt_x := fsub (pt_x p) (Finite 1)\<rparr>),
      wasStopped = (\<lambda>n. 2 \<le> n)\<rparr>"

definition example_argv :: "string list" where
  "example_argv = [''recognition'', ''model.pcd'', ''scene.pcd'', ''--model_ss'', ''-1'']"

text \<open>The same library with a single point in both files, and a command line without options.\<close>

definition example_pcl_single :: "(unit, unit, nat) pcl" where
  "example_pcl_single = example_pcl\<lparr>loadPCDFile := (\<lambda>name. (0, example_cloud_single))\<rparr>"

definition example_argv_plain :: "string list" where
  "example_argv_plain = [''recognition'', ''model.pcd'', ''scene.pcd'']"

text \<open>A state with the model and scene descriptors above.\<close>

definition example_globals :: "(unit, nat) globals" where
  "example_globals =
     initial_globals\<lparr>model_descriptors := example_model_descriptors,
                     scene_descriptors := example_descriptors\<rparr>"

section \<open>Floating-point facts\<close>

lemma float_less_not_ge: "float_less a b \<Longrightarrow> \<not> float_ge a b"
  by (cases a; cases b) simp_all



lemma upt_2: "[0..<2] = [0, Suc 0]"
  by (simp add: upt_rec)


section \<open>Distances of points\<close>





section \<open>The exhaustive index\<close>



lemma exhaustive_search2_example:
  "exhaustive_search2 example_cloud 0 = (2, (0, 1), (Finite 0, Finite 4))"
  "exhaustive_search2 example_cloud (Suc 0) = (2, (1, 0), (Finite 0, Finite 4))"
  by (simp_all add: exhaustive_search2_def kNearest_points_def example_cloud_def
      finite_coordinates_def squared_distance_def upt_2)


lemma exhaustive_search2_example_single:
  "fst (exhaustive_search2 example_cloud_single 0) = 1"
  by (simp add: exhaustive_search2_def kNearest_points_def example_cloud_single_def
      finite_coordinates_def squared_distance_def)

section \<open>Cloud resolution\<close>

text \<open>
  The loop adds, from left to right, the second distances of the positions from \<open>i\<close> on
  that pass both tests, and counts them.
\<close>

lemma computeCloudResolution_loop_closed:
  "computeCloudResolution_loop tree cloud i (res, n) =
     (foldl fadd res (map (\<lambda>j. fsqrt (snd (snd (snd (tree j)))))
        (filter (\<lambda>j. pcl_isfinite (pt_x (cloud ! j)) \<and> fst (tree j) = 2)
           [i..<length cloud])),
      n + int (length (filter (\<lambda>j. pcl_isfinite (pt_x (cloud ! j)) \<and> fst (tree j) = 2)
           [i..<length cloud])))"
proof (induction "length cloud - i" arbitrary: i res n)
  case 0
  then show ?case
    by (subst computeCloudResolution_loop.simps) simp
next
  case (Suc k)
  then have lt: "i < length cloud" and k: "k = length cloud - (i + 1)"
    by simp_all
  have up: "[i..<length cloud] = i # [i + 1..<length cloud]"
    using lt by (simp add: upt_conv_Cons)
  show ?case
    using lt Suc.hyps(1)[OF k]
    by (subst computeCloudResolution_loop.simps) (simp add: up split: prod.splits)
qed

text \<open>Whatever the search answers, the code takes the mean over the points with finite \<open>x\<close>.\<close>

lemma computeCloudResolution_closed:
  "computeCloudResolution K cloud =
     mean_second_distance (\<lambda>i. pcl_isfinite (pt_x (cloud ! i))) (K cloud) (length cloud)"
  unfolding computeCloudResolution_def mean_second_distance_def
    computeCloudResolution_loop_closed
  by (simp add: Let_def)

lemma computeCloudResolution_Nil: "computeCloudResolution K [] = Finite 0"
  by (simp add: computeCloudResolution_closed mean_second_distance_def)

lemma computeCloudResolution_example:
  "computeCloudResolution exhaustive_search2 example_cloud = Finite 2"
  by (simp add: computeCloudResolution_closed mean_second_distance_def upt_2
      example_cloud_def exhaustive_search2_example [unfolded example_cloud_def])

lemma computeCloudResolution_example_single:
  "computeCloudResolution exhaustive_search2 example_cloud_single = Finite 0"
  by (simp add: computeCloudResolution_closed mean_second_distance_def
      example_cloud_single_def
      exhaustive_search2_example_single [unfolded example_cloud_single_def])





section \<open>Resolution setup\<close>

text \<open>
  C1, as the code has it. When the computed resolution is nonzero, \<open>setUpResolution\<close>
  multiplies the five radii (model and scene sampling radius, local-frame radius,
  descriptor radius, clustering bin size) by it and leaves the clustering threshold as
  it was.
\<close>

theorem setUpResolution_scales_radii:
  assumes "float_neq (computeCloudResolution (KdTree lib) (model g)) (Finite 0)"
  shows "model_ss (setUpResolution lib g) =
           fmul (model_ss g) (computeCloudResolution (KdTree lib) (model g))
       \<and> scene_ss (setUpResolution lib g) =
           fmul (scene_ss g) (computeCloudResolution (KdTree lib) (model g))
       \<and> rf_rad (setUpResolution lib g) =
           fmul (rf_rad g) (computeCloudResolution (KdTree lib) (model g))
       \<and> descr_rad (setUpResolution lib g) =
           fmul (descr_rad g) (computeCloudResolution (KdTree lib) (model g))
       \<and> cg_size (setUpResolution lib g) =
           fmul (cg_size g) (computeCloudResolution (KdTree lib) (model g))
       \<and> cg_thresh (setUpResolution lib g) = cg_thresh g"
  using assms by (simp add: setUpResolution_def Let_def)

text \<open>
  On the cloud of two points at distance 2, with the default parameters: the resolution
  is 2, the radii become 20, 60, 30, 40 and 20, the threshold stays 5.
\<close>

theorem setUpResolution_scales_radii_example:
  "float_neq (computeCloudResolution (KdTree example_pcl) example_cloud) (Finite 0)
   \<and> model_ss (setUpResolution example_pcl (initial_globals\<lparr>model := example_cloud\<rparr>)) = Finite 20
   \<and> scene_ss (setUpResolution example_pcl (initial_globals\<lparr>model := example_cloud\<rparr>)) = Finite 60
   \<and> rf_rad (setUpResolution example_pcl (initial_globals\<lparr>model := example_cloud\<rparr>)) = Finite 30
   \<and> descr_rad (setUpResolution example_pcl (initial_globals\<lparr>model := example_cloud\<rparr>)) = Finite 40
   \<and> cg_size (setUpResolution example_pcl (initial_globals\<lparr>model := example_cloud\<rparr>)) = Finite 20
   \<and> cg_thresh (setUpResolution example_pcl (initial_globals\<lparr>model := example_cloud\<rparr>)) = Finite 5"
proof -
  have r: "computeCloudResolution (KdTree example_pcl) example_cloud = Finite 2"
    by (simp add: example_pcl_def computeCloudResolution_example)
  have h: "float_neq (computeCloudResolution (KdTree example_pcl)
             (model (initial_globals\<lparr>model := example_cloud\<rparr> :: (unit, nat) globals)))
             (Finite 0)"
    by (simp add: r float_neq_def)
  show ?thesis
    using setUpResolution_scales_radii [OF h] h
    by (simp add: r initial_globals_def)
qed

text \<open>
  The statement for all six parameters fails for the clustering threshold: on the same
  input the resolution is 2, and the threshold after the setup is 5, not 10.
\<close>

theorem setUpResolution_cg_thresh_example:
  "float_neq (computeCloudResolution (KdTree example_pcl) example_cloud) (Finite 0)
   \<and> cg_thresh (setUpResolution example_pcl (initial_globals\<lparr>model := example_cloud\<rparr>))
       \<noteq> fmul (cg_thresh (initial_globals\<lparr>model := example_cloud\<rparr> :: (unit, nat) globals))
            (computeCloudResolution (KdTree example_pcl) example_cloud)"
proof -
  have r: "computeCloudResolution (KdTree example_pcl) example_cloud = Finite 2"
    by (simp add: example_pcl_def computeCloudResolution_example)
  show ?thesis
    by (simp add: r float_neq_def setUpResolution_def initial_globals_def)
qed

section \<open>Distances of descriptors\<close>











lemma foldl_fadd_zeros: "foldl fadd (Finite c) (map (\<lambda>j. Finite 0) js) = Finite c"
  by (induction js) simp_all

lemma descriptor_example_nth:
  "descriptor (example_descriptor a) ! 0 = Finite a"
  "0 < j \<Longrightarrow> j < 352 \<Longrightarrow> descriptor (example_descriptor a) ! j = Finite 0"
  by (simp_all add: example_descriptor_def nth_Cons')

lemma descriptor_squared_distance_example:
  "descriptor_squared_distance (example_descriptor a) (example_descriptor b) =
     Finite ((a - b) * (a - b))"
proof -
  have up: "[0..<352] = 0 # [Suc 0..<352]"
    by (simp add: upt_conv_Cons)
  have rest: "map (\<lambda>j. fmul (fsub (descriptor (example_descriptor a) ! j)
                              (descriptor (example_descriptor b) ! j))
                        (fsub (descriptor (example_descriptor a) ! j)
                              (descriptor (example_descriptor b) ! j))) [Suc 0..<352] =
              map (\<lambda>j. Finite 0) [Suc 0..<352]"
    by (rule map_cong [OF refl]) (simp add: descriptor_example_nth)
  show ?thesis
    unfolding descriptor_squared_distance_def up
    by (simp only: list.map foldl.simps rest descriptor_example_nth(1))
       (simp add: foldl_fadd_zeros)
qed

lemma list_all_example_descriptor: "list_all pcl_isfinite (descriptor (example_descriptor a))"
  by (simp add: example_descriptor_def list_all_iff)

section \<open>The exhaustive index on descriptors\<close>


lemma exhaustive_search1_example:
  "exhaustive_search1 example_model_descriptors (example_descriptor a) = (1, 0, Finite (a * a))"
  using descriptor_squared_distance_example [of a 0]
  by (simp add: exhaustive_search1_def kNearest_descriptors_def example_model_descriptors_def
      list_all_example_descriptor)

lemma exhaustive_search1_example_nan:
  "exhaustive_search1 md \<lparr>descriptor = replicate 352 NaN\<rparr> = (0, 0, Finite 0)"
  "exhaustive_search1 md \<lparr>descriptor = Finite 0 # NaN # replicate 350 (Finite 0)\<rparr> =
     (0, 0, Finite 0)"
  by (simp_all add: exhaustive_search1_def list_all_iff)

section \<open>Correspondence matching\<close>

lemma findModelSpaceCorrespondences_loop_closed:
  "findModelSpaceCorrespondences_loop ms sd i corrs =
     corrs @ map (emitted ms sd) (filter (accepted ms sd) [i..<length sd])"
proof (induction "length sd - i" arbitrary: i corrs)
  case 0
  then show ?case
    by (subst findModelSpaceCorrespondences_loop.simps) simp
next
  case (Suc k)
  then have lt: "i < length sd" and k: "k = length sd - (i + 1)"
    by simp_all
  have up: "[i..<length sd] = i # [i + 1..<length sd]"
    using lt by (simp add: upt_conv_Cons)
  show ?case
    using lt Suc.hyps(1)[OF k]
    by (subst findModelSpaceCorrespondences_loop.simps)
       (simp add: up accepted_def emitted_def split: prod.splits)
qed

lemma new_corrs_eq:
  "new_corrs lib g =
     map (emitted (KdTreeFLANN lib (model_descriptors g)) (scene_descriptors g))
       (filter (accepted (KdTreeFLANN lib (model_descriptors g)) (scene_descriptors g))
          [0..<length (scene_descriptors g)])"
  by (simp add: new_corrs_def findModelSpaceCorrespondences_def
      findModelSpaceCorrespondences_loop_closed)

text \<open>The call keeps what the vector held and appends the new Correspondences.\<close>

lemma findModelSpaceCorrespondences_appends:
  "model_scene_corrs (findModelSpaceCorrespondences lib g) =
     model_scene_corrs g @ new_corrs lib g"
  by (simp add: new_corrs_def findModelSpaceCorrespondences_def
      findModelSpaceCorrespondences_loop_closed)

lemma index_match_new_corrs:
  "map index_match (new_corrs lib g) =
     map int (filter (accepted (KdTreeFLANN lib (model_descriptors g)) (scene_descriptors g))
       [0..<length (scene_descriptors g)])"
  unfolding new_corrs_eq by (simp add: emitted_def comp_def)

lemma new_corrs_example:
  "new_corrs example_pcl example_globals =
     [\<lparr>index_query = 0, index_match = 0, distance = Finite 0\<rparr>,
      \<lparr>index_query = 0, index_match = 4, distance = Finite (1 / 16)\<rparr>]"
  by (simp add: new_corrs_eq example_globals_def example_pcl_def example_descriptors_def
      accepted_def emitted_def initial_globals_def exhaustive_search1_example
      exhaustive_search1_example_nan descriptor_example_nth)

text \<open>
  C3. Every Correspondence that the matcher appends comes from a scene descriptor whose
  \<open>k = 1\<close> search returned exactly one neighbour at a squared distance strictly below
  0.25, and carries that neighbour, the position of the scene descriptor and that
  distance; so its squared distance is not \<open>\<ge> 0.25\<close>.
\<close>

theorem new_corrs_below_threshold:
  assumes "c \<in> set (new_corrs lib g)"
  shows "(\<exists>i<length (scene_descriptors g).
            fst (KdTreeFLANN lib (model_descriptors g) (scene_descriptors g ! i)) = 1
          \<and> float_less (snd (snd (KdTreeFLANN lib (model_descriptors g) (scene_descriptors g ! i))))
              (Finite (1 / 4))
          \<and> c = \<lparr>index_query =
                    fst (snd (KdTreeFLANN lib (model_descriptors g) (scene_descriptors g ! i))),
                  index_match = int i,
                  distance =
                    snd (snd (KdTreeFLANN lib (model_descriptors g) (scene_descriptors g ! i)))\<rparr>)
       \<and> float_less (distance c) (Finite (1 / 4))
       \<and> \<not> float_ge (distance c) (Finite (1 / 4))"
  using assms unfolding new_corrs_eq
  by (auto simp: accepted_def emitted_def dest: float_less_not_ge)

text \<open>
  On the five scene descriptors, with one model descriptor: the Correspondence for the
  first one is appended, and its squared distance 0 is below 0.25.
\<close>

theorem new_corrs_below_threshold_example:
  "\<lparr>index_query = 0, index_match = 0, distance = Finite 0\<rparr>
     \<in> set (new_corrs example_pcl example_globals)
   \<and> float_less (distance \<lparr>index_query = 0, index_match = 0, distance = Finite 0\<rparr>)
       (Finite (1 / 4))
   \<and> \<not> float_ge (distance \<lparr>index_query = 0, index_match = 0, distance = Finite 0\<rparr>)
       (Finite (1 / 4))"
proof -
  have h: "\<lparr>index_query = 0, index_match = 0, distance = Finite 0\<rparr>
     \<in> set (new_corrs example_pcl example_globals)"
    by (simp add: new_corrs_example)
  from new_corrs_below_threshold [OF h]
  have "float_less (distance \<lparr>index_query = 0, index_match = 0, distance = Finite 0\<rparr>)
          (Finite (1 / 4))
      \<and> \<not> float_ge (distance \<lparr>index_query = 0, index_match = 0, distance = Finite 0\<rparr>)
          (Finite (1 / 4))"
    by blast
  with h show ?thesis
    by blast
qed



text \<open>
  C5. Among the Correspondences that the matcher appends, every scene index occurs at most
  once, and there are at most as many as scene descriptors. A model index may occur more
  than once: on the five scene descriptors, model index 0 is matched twice.
\<close>

theorem new_corrs_scene_index_once:
  "distinct (map index_match (new_corrs lib g))
   \<and> length (new_corrs lib g) \<le> length (scene_descriptors g)
   \<and> \<not> distinct (map index_query (new_corrs example_pcl example_globals))"
proof (intro conjI)
  show "distinct (map index_match (new_corrs lib g))"
    unfolding index_match_new_corrs by (simp add: distinct_map inj_on_def)
  have "length (new_corrs lib g) \<le> length [0..<length (scene_descriptors g)]"
    unfolding new_corrs_eq length_map by (rule length_filter_le)
  then show "length (new_corrs lib g) \<le> length (scene_descriptors g)"
    by simp
  show "\<not> distinct (map index_query (new_corrs example_pcl example_globals))"
    by (simp add: new_corrs_example)
qed

section \<open>Printing and the viewer\<close>

lemma outputResults_loop_closed:
  assumes "length transforms \<le> length clusters"
  shows "outputResults_loop transforms clusters i out =
           Inr (out @ map (\<lambda>j. (j + 1, length (clusters ! j), transforms ! j))
                        [i..<length transforms])"
  using assms
proof (induction "length transforms - i" arbitrary: i out)
  case 0
  then show ?case
    by (subst outputResults_loop.simps) simp
next
  case (Suc k)
  then have lt: "i < length transforms" and k: "k = length transforms - (i + 1)"
    by simp_all
  have up: "[i..<length transforms] = i # [i + 1..<length transforms]"
    using lt by (simp add: upt_conv_Cons)
  show ?case
    using lt Suc.hyps(1)[OF k Suc.prems] Suc.prems
    by (subst outputResults_loop.simps) (simp add: up)
qed

text \<open>With more transforms than clusters, printing reads past the end of the clusters.\<close>

lemma outputResults_loop_past_end:
  assumes "length clusters < length transforms" and "i \<le> length clusters"
  shows "outputResults_loop transforms clusters i out = Inl OutOfRange"
  using assms
proof (induction "length clusters - i" arbitrary: i out)
  case 0
  then show ?case
    by (subst outputResults_loop.simps) simp
next
  case (Suc k)
  then have lt: "i < length clusters" and k: "k = length clusters - (i + 1)"
    by simp_all
  from lt have le: "i + 1 \<le> length clusters"
    by simp
  show ?case
    using lt Suc.prems(1) Suc.hyps(1)[OF k Suc.prems(1) le]
    by (subst outputResults_loop.simps) simp
qed

text \<open>Without the lines of the correspondences, the viewer loop reads no vector.\<close>

lemma visualization_loop_no_lines:
  "visualization_loop False off_kp scene_kp transforms clusters i drawn =
     Inr (drawn @ replicate (length transforms - i) [])"
proof (induction "length transforms - i" arbitrary: i drawn)
  case 0
  then show ?case
    by (subst visualization_loop.simps) simp
next
  case (Suc k)
  then have lt: "i < length transforms" and k: "k = length transforms - (i + 1)"
    by simp_all
  from lt have "length transforms - i = Suc (length transforms - (i + 1))"
    by simp
  then show ?case
    using lt Suc.hyps(1)[OF k]
    by (subst visualization_loop.simps) (simp add: replicate_app_Cons_same)
qed

lemma spin_stopped: "stopped n \<Longrightarrow> spin stopped n = Some n"
  by (subst spin.simps) simp

lemma spin_step: "\<not> stopped n \<Longrightarrow> spin stopped n = spin stopped (Suc n)"
  by (subst spin.simps) simp

text \<open>The loop of the viewer ends when the viewer is stopped at some call.\<close>

lemma spin_ends: "stopped (n + k) \<Longrightarrow> \<exists>m. spin stopped n = Some m"
proof (induction k arbitrary: n)
  case 0
  then show ?case
    by (simp add: spin_stopped)
next
  case (Suc k)
  show ?case
  proof (cases "stopped n")
    case True
    then show ?thesis
      by (simp add: spin_stopped)
  next
    case False
    from Suc.prems have "stopped (Suc n + k)"
      by simp
    from Suc.IH [OF this] False show ?thesis
      by (simp add: spin_step)
  qed
qed

lemma visualization_no_lines:
  assumes "\<not> show_correspondences g" and "wasStopped lib n"
  shows "\<exists>drawn. visualization lib g = Some (Inr drawn)"
proof -
  from assms(2) have "wasStopped lib (0 + n)"
    by simp
  from spin_ends [of "wasStopped lib" 0 n, OF this]
  obtain m where "spin (wasStopped lib) 0 = Some m"
    by blast
  with assms(1) show ?thesis
    by (simp add: visualization_def visualization_loop_no_lines)
qed

section \<open>The run of main\<close>

lemma parameters_computeNormals: "parameters (computeNormals lib g) = parameters g"
  by (simp add: parameters_def computeNormals_def)

lemma parameters_extractKeypoints: "parameters (extractKeypoints lib g) = parameters g"
  by (simp add: parameters_def extractKeypoints_def)

lemma parameters_computeDescriptorForKeypoints:
  "parameters (computeDescriptorForKeypoints lib g) = parameters g"
  by (simp add: parameters_def computeDescriptorForKeypoints_def)

lemma parameters_findModelSpaceCorrespondences:
  "parameters (findModelSpaceCorrespondences lib g) = parameters g"
  by (simp add: parameters_def findModelSpaceCorrespondences_def)

lemma parameters_clusteringUsingHough3D:
  "parameters (clusteringUsingHough3D lib g) = parameters g"
  by (simp add: parameters_def clusteringUsingHough3D_def Let_def split: prod.splits)

lemma loadClouds_keeps:
  assumes "loadClouds lib g = (ok, g')"
  shows "parameters g' = parameters g"
    and "show_correspondences g' = show_correspondences g"
  using assms
  by (auto simp: parameters_def loadClouds_def split: prod.splits if_splits)

text \<open>The state after the six processing stages, written out in the calls of the library.\<close>

lemma processing_stages:
  fixes lib :: "('n, 'rf, 't) pcl" and g :: "('n, 't) globals"
  defines "s \<equiv> clusteringUsingHough3D lib (findModelSpaceCorrespondences lib
             (computeDescriptorForKeypoints lib (extractKeypoints lib
               (computeNormals lib g))))"
  shows "model_normals s = NormalEstimationOMP lib 10 (model g)"
    and "scene_normals s = NormalEstimationOMP lib 10 (scene g)"
    and "model_keypoints s = UniformSampling lib (model g) (model_ss g)"
    and "scene_keypoints s = UniformSampling lib (scene g) (scene_ss g)"
    and "model_descriptors s =
           SHOTEstimationOMP lib (descr_rad g) (model_keypoints s) (model_normals s) (model g)"
    and "scene_descriptors s =
           SHOTEstimationOMP lib (descr_rad g) (scene_keypoints s) (scene_normals s) (scene g)"
    and "model_scene_corrs s =
           findModelSpaceCorrespondences_loop (KdTreeFLANN lib (model_descriptors s))
             (scene_descriptors s) 0 (model_scene_corrs g)"
    and "(rototranslations s, clustered_corrs s) =
           Hough3DGrouping lib (cg_size g) (cg_thresh g) (model_keypoints s)
             (BOARDLocalReferenceFrameEstimation lib (rf_rad g) (model_keypoints s)
                (model_normals s) (model g))
             (scene_keypoints s)
             (BOARDLocalReferenceFrameEstimation lib (rf_rad g) (scene_keypoints s)
                (scene_normals s) (scene g))
             (model_scene_corrs s)"
    and "show_correspondences s = show_correspondences g"
    and "parameters s = parameters g"
  unfolding s_def
  by (simp_all add: clusteringUsingHough3D_def findModelSpaceCorrespondences_def
      computeDescriptorForKeypoints_def extractKeypoints_def computeNormals_def
      parameters_def Let_def split: prod.splits)

text \<open>
  Once both clouds are loaded, every processing stage is called, the results are printed,
  and the run ends as printing and the viewer end.
\<close>

lemma main_loaded:
  assumes "parseCommandLine lib argv initial_globals = Inr g"
    and "loadClouds lib g = (True, g')"
  shows "final (main lib argv) =
           clusteringUsingHough3D lib (findModelSpaceCorrespondences lib
             (computeDescriptorForKeypoints lib (extractKeypoints lib
               (computeNormals lib (setUpResolution lib g')))))"
    and "take 8 (stages (main lib argv)) =
           [LoadClouds, SetUpResolution, ComputeNormals, ExtractKeypoints,
            ComputeDescriptorForKeypoints, FindModelSpaceCorrespondences,
            ClusteringUsingHough3D, OutputResults]"
    and "status (main lib argv) =
           (case outputResults (final (main lib argv)) of
              Inl e \<Rightarrow> Failed e
            | Inr report \<Rightarrow>
                (case visualization lib (final (main lib argv)) of
                   None \<Rightarrow> NotStopped
                 | Some (Inl e) \<Rightarrow> Failed e
                 | Some (Inr drawn) \<Rightarrow> Returned 0))"
    and "stages (main lib argv) =
           [LoadClouds, SetUpResolution, ComputeNormals, ExtractKeypoints,
            ComputeDescriptorForKeypoints, FindModelSpaceCorrespondences,
            ClusteringUsingHough3D, OutputResults]
           @ (case outputResults (final (main lib argv)) of
                Inl e \<Rightarrow> [] | Inr report \<Rightarrow> [Visualization])"
  using assms
  by (auto simp: main_def call_def Let_def split: sum.splits option.splits)

lemma parseCommandLine_cases:
  "find_switch lib argv ''-h'' \<Longrightarrow> parseCommandLine lib argv g = Inl 0"
  "\<not> find_switch lib argv ''-h'' \<Longrightarrow>
     length (parse_file_extension_argument lib argv ''.pcd'') \<noteq> 2 \<Longrightarrow>
     parseCommandLine lib argv g = Inl (- 1)"
  "\<not> find_switch lib argv ''-h'' \<Longrightarrow>
     length (parse_file_extension_argument lib argv ''.pcd'') = 2 \<Longrightarrow>
     \<exists>g'. parseCommandLine lib argv g = Inr g'"
  by (simp_all add: parseCommandLine_def Let_def)

lemma parseCommandLine_example_plain:
  "parseCommandLine example_pcl_single example_argv_plain initial_globals =
     Inr (initial_globals\<lparr>model_filename := ''model.pcd'', scene_filename := ''scene.pcd''\<rparr>)"
  by (simp add: parseCommandLine_def example_pcl_single_def example_pcl_def
      example_argv_plain_def initial_globals_def Let_def)

lemma loadClouds_example_plain:
  "loadClouds example_pcl_single
     (initial_globals\<lparr>model_filename := ''model.pcd'', scene_filename := ''scene.pcd''\<rparr>) =
   (True, initial_globals\<lparr>model_filename := ''model.pcd'', scene_filename := ''scene.pcd'',
      model := example_cloud_single, scene := example_cloud_single\<rparr>)"
  by (simp add: loadClouds_def example_pcl_single_def example_pcl_def initial_globals_def)

lemma no_instance_example:
  "rototranslations (clusteringUsingHough3D example_pcl s) = []"
  "clustered_corrs (clusteringUsingHough3D example_pcl s) = []"
  "rototranslations (clusteringUsingHough3D example_pcl_single s) = []"
  "clustered_corrs (clusteringUsingHough3D example_pcl_single s) = []"
  by (simp_all add: clusteringUsingHough3D_def example_pcl_single_def example_pcl_def Let_def)

lemma wasStopped_example:
  "wasStopped example_pcl 2" "wasStopped example_pcl_single 2"
  by (simp_all add: example_pcl_single_def example_pcl_def)

text \<open>
  C6. When the resolution computed from the loaded model cloud is zero,
  \<open>setUpResolution\<close> changes nothing, and \<open>main\<close> goes on: every later processing stage is
  called with the six parameters as read from the command line (the sampler with the two
  sampling radii, the descriptor and frame estimators with their radii, the clusterer
  with bin size and threshold), and the results are printed. The run then ends as
  printing and the viewer end; it returns 0 after all nine stages when the clusterer has
  filled at least as many clusters as transforms, no correspondence lines are drawn and
  the viewer is stopped at some call.
\<close>

theorem zero_resolution_keeps_parameters:
  assumes "parseCommandLine lib argv initial_globals = Inr g"
    and "loadClouds lib g = (True, g')"
    and "computeCloudResolution (KdTree lib) (model g') = Finite 0"
  shows "setUpResolution lib g' = g'
       \<and> parameters (final (main lib argv)) = parameters g
       \<and> model_keypoints (final (main lib argv)) = UniformSampling lib (model g') (model_ss g)
       \<and> scene_keypoints (final (main lib argv)) = UniformSampling lib (scene g') (scene_ss g)
       \<and> model_descriptors (final (main lib argv)) =
           SHOTEstimationOMP lib (descr_rad g) (model_keypoints (final (main lib argv)))
             (NormalEstimationOMP lib 10 (model g')) (model g')
       \<and> scene_descriptors (final (main lib argv)) =
           SHOTEstimationOMP lib (descr_rad g) (scene_keypoints (final (main lib argv)))
             (NormalEstimationOMP lib 10 (scene g')) (scene g')
       \<and> model_scene_corrs (final (main lib argv)) =
           findModelSpaceCorrespondences_loop
             (KdTreeFLANN lib (model_descriptors (final (main lib argv))))
             (scene_descriptors (final (main lib argv))) 0 (model_scene_corrs g')
       \<and> (rototranslations (final (main lib argv)), clustered_corrs (final (main lib argv))) =
           Hough3DGrouping lib (cg_size g) (cg_thresh g)
             (model_keypoints (final (main lib argv)))
             (BOARDLocalReferenceFrameEstimation lib (rf_rad g)
                (model_keypoints (final (main lib argv)))
                (NormalEstimationOMP lib 10 (model g')) (model g'))
             (scene_keypoints (final (main lib argv)))
             (BOARDLocalReferenceFrameEstimation lib (rf_rad g)
                (scene_keypoints (final (main lib argv)))
                (NormalEstimationOMP lib 10 (scene g')) (scene g'))
             (model_scene_corrs (final (main lib argv)))
       \<and> take 8 (stages (main lib argv)) =
           [LoadClouds, SetUpResolution, ComputeNormals, ExtractKeypoints,
            ComputeDescriptorForKeypoints, FindModelSpaceCorrespondences,
            ClusteringUsingHough3D, OutputResults]
       \<and> status (main lib argv) =
           (case outputResults (final (main lib argv)) of
              Inl e \<Rightarrow> Failed e
            | Inr report \<Rightarrow>
                (case visualization lib (final (main lib argv)) of
                   None \<Rightarrow> NotStopped
                 | Some (Inl e) \<Rightarrow> Failed e
                 | Some (Inr drawn) \<Rightarrow> Returned 0))
       \<and> (length (rototranslations (final (main lib argv)))
            \<le> length (clustered_corrs (final (main lib argv)))
          \<and> \<not> show_correspondences g \<and> (\<exists>n. wasStopped lib n) \<longrightarrow>
          status (main lib argv) = Returned 0
          \<and> stages (main lib argv) =
              [LoadClouds, SetUpResolution, ComputeNormals, ExtractKeypoints,
               ComputeDescriptorForKeypoints, FindModelSpaceCorrespondences,
               ClusteringUsingHough3D, OutputResults, Visualization])"
proof -
  have same: "setUpResolution lib g' = g'"
    using assms(3) by (simp add: setUpResolution_def Let_def float_neq_def)
  note m = main_loaded [OF assms(1,2), unfolded same]
  note p = processing_stages [of lib g', folded m(1)]
  note k = loadClouds_keeps [OF assms(2)]
  from k(1) have radii: "model_ss g' = model_ss g" "scene_ss g' = scene_ss g"
    "rf_rad g' = rf_rad g" "descr_rad g' = descr_rad g" "cg_size g' = cg_size g"
    "cg_thresh g' = cg_thresh g"
    by (simp_all add: parameters_def)
  have ends: "status (main lib argv) = Returned 0
      \<and> stages (main lib argv) =
          [LoadClouds, SetUpResolution, ComputeNormals, ExtractKeypoints,
           ComputeDescriptorForKeypoints, FindModelSpaceCorrespondences,
           ClusteringUsingHough3D, OutputResults, Visualization]"
    if le: "length (rototranslations (final (main lib argv)))
              \<le> length (clustered_corrs (final (main lib argv)))"
      and noshow: "\<not> show_correspondences g" and stop: "wasStopped lib n" for n
  proof -
    from le have out: "\<exists>report. outputResults (final (main lib argv)) = Inr report"
      by (simp add: outputResults_def outputResults_loop_closed)
    from noshow p(9) k(2) have "\<not> show_correspondences (final (main lib argv))"
      by simp
    from visualization_no_lines [OF this stop]
    have vis: "\<exists>drawn. visualization lib (final (main lib argv)) = Some (Inr drawn)" .
    from out vis m(3) m(4) show ?thesis
      by auto
  qed
  from same p(10) k(1) have "setUpResolution lib g' = g'
      \<and> parameters (final (main lib argv)) = parameters g"
    by simp
  moreover note p(3) [unfolded radii] p(4) [unfolded radii]
    p(5) [unfolded radii p(1)] p(6) [unfolded radii p(2)] p(7)
    p(8) [unfolded radii p(1) p(2)] m(2) m(3)
  ultimately show ?thesis
    using ends by blast
qed

text \<open>
  With a single point in both files and no options: the query of the only point returns
  1 result, so the resolution is 0; the parameters at the end are the defaults, the
  sampler was called with radius 10 on the model, and the run calls all nine stages and
  returns 0.
\<close>

theorem zero_resolution_keeps_parameters_example:
  "computeCloudResolution (KdTree example_pcl_single) example_cloud_single = Finite 0
   \<and> parameters (final (main example_pcl_single example_argv_plain)) =
       (Finite 10, Finite 30, Finite 15, Finite 20, Finite 10, Finite 5)
   \<and> model_keypoints (final (main example_pcl_single example_argv_plain)) =
       UniformSampling example_pcl_single example_cloud_single (Finite 10)
   \<and> status (main example_pcl_single example_argv_plain) = Returned 0
   \<and> length (stages (main example_pcl_single example_argv_plain)) = 9"
proof -
  have r: "computeCloudResolution (KdTree example_pcl_single) example_cloud_single = Finite 0"
    by (simp add: example_pcl_single_def example_pcl_def computeCloudResolution_example_single)
  then have z: "computeCloudResolution (KdTree example_pcl_single)
             (model (initial_globals\<lparr>model_filename := ''model.pcd'',
                scene_filename := ''scene.pcd'', model := example_cloud_single,
                scene := example_cloud_single\<rparr> :: (unit, nat) globals)) = Finite 0"
    by simp
  note t = zero_resolution_keeps_parameters
      [OF parseCommandLine_example_plain loadClouds_example_plain z]
  have le: "length (rototranslations (final (main example_pcl_single example_argv_plain)))
      \<le> length (clustered_corrs (final (main example_pcl_single example_argv_plain)))"
    by (simp add: main_loaded(1) [OF parseCommandLine_example_plain loadClouds_example_plain]
        no_instance_example)
  have ns: "\<not> show_correspondences (initial_globals\<lparr>model_filename := ''model.pcd'',
      scene_filename := ''scene.pcd''\<rparr> :: (unit, nat) globals)"
    by (simp add: initial_globals_def)
  from wasStopped_example(2) have st: "\<exists>n. wasStopped example_pcl_single n"
    by blast
  from t le ns st have a: "status (main example_pcl_single example_argv_plain) = Returned 0"
    and b: "stages (main example_pcl_single example_argv_plain) =
              [LoadClouds, SetUpResolution, ComputeNormals, ExtractKeypoints,
               ComputeDescriptorForKeypoints, FindModelSpaceCorrespondences,
               ClusteringUsingHough3D, OutputResults, Visualization]"
    by blast+
  from t have c: "parameters (final (main example_pcl_single example_argv_plain)) =
       (Finite 10, Finite 30, Finite 15, Finite 20, Finite 10, Finite 5)"
    by (simp add: parameters_def initial_globals_def)
  from t have d: "model_keypoints (final (main example_pcl_single example_argv_plain)) =
       UniformSampling example_pcl_single example_cloud_single (Finite 10)"
    by (simp add: initial_globals_def)
  from r a b c d show ?thesis
    by simp
qed

lemma parseCommandLine_example:
  "parseCommandLine example_pcl example_argv initial_globals =
     Inr (initial_globals\<lparr>model_filename := ''model.pcd'', scene_filename := ''scene.pcd'',
            model_ss := Finite (- 1)\<rparr>)"
  by (simp add: parseCommandLine_def example_pcl_def example_argv_def initial_globals_def
      Let_def)

lemma loadClouds_example:
  "loadClouds example_pcl
     (initial_globals\<lparr>model_filename := ''model.pcd'', scene_filename := ''scene.pcd'',
        model_ss := Finite (- 1)\<rparr>) =
   (True, initial_globals\<lparr>model_filename := ''model.pcd'', scene_filename := ''scene.pcd'',
      model_ss := Finite (- 1), model := example_cloud, scene := example_cloud\<rparr>)"
  by (simp add: loadClouds_def example_pcl_def initial_globals_def)

lemma outputResults_no_instance:
  "rototranslations s = [] \<Longrightarrow> outputResults s = Inr []"
  by (simp add: outputResults_def outputResults_loop_closed)

lemma visualization_loop_Nil:
  "visualization_loop b off_kp scene_kp [] clusters i drawn = Inr drawn"
  by (subst visualization_loop.simps) simp

lemma visualization_no_instance:
  assumes "rototranslations s = []" and "wasStopped lib n"
  shows "visualization lib s = Some (Inr [])"
proof -
  from assms(2) have "wasStopped lib (0 + n)"
    by simp
  from spin_ends [of "wasStopped lib" 0 n, OF this]
  obtain m where "spin (wasStopped lib) 0 = Some m"
    by blast
  with assms(1) show ?thesis
    by (simp add: visualization_def visualization_loop_Nil)
qed

text \<open>
  C7, as the code has it. No radius is ever validated. \<open>main\<close> stops before the pipeline
  only for the switch \<open>-h\<close> (exit 0) or when the command line does not name exactly two
  \<open>.pcd\<close> files (exit -1), and stops after the loading stage when a cloud does not load
  (return -1). In every other case, whatever the values of the radii, it calls every
  processing stage, so that the state it leaves is the result of the six stage functions
  in order, and prints the results; it then fails if printing or drawing reads past the
  end of a vector, does not end if the viewer is never stopped, and returns 0 otherwise.
\<close>

theorem main_exits:
  "(find_switch lib argv ''-h'' \<longrightarrow>
      status (main lib argv) = Returned 0 \<and> stages (main lib argv) = [])
   \<and> (\<not> find_switch lib argv ''-h''
        \<and> length (parse_file_extension_argument lib argv ''.pcd'') \<noteq> 2 \<longrightarrow>
      status (main lib argv) = Returned (- 1) \<and> stages (main lib argv) = [])
   \<and> (\<not> find_switch lib argv ''-h''
        \<and> length (parse_file_extension_argument lib argv ''.pcd'') = 2 \<longrightarrow>
      (\<exists>g. parseCommandLine lib argv initial_globals = Inr g))
   \<and> (\<forall>g g'. parseCommandLine lib argv initial_globals = Inr g
        \<and> loadClouds lib g = (False, g') \<longrightarrow>
      status (main lib argv) = Returned (- 1) \<and> stages (main lib argv) = [LoadClouds])
   \<and> (\<forall>g g'. parseCommandLine lib argv initial_globals = Inr g
        \<and> loadClouds lib g = (True, g') \<longrightarrow>
      final (main lib argv) =
        clusteringUsingHough3D lib (findModelSpaceCorrespondences lib
          (computeDescriptorForKeypoints lib (extractKeypoints lib
            (computeNormals lib (setUpResolution lib g')))))
      \<and> stages (main lib argv) =
          [LoadClouds, SetUpResolution, ComputeNormals, ExtractKeypoints,
           ComputeDescriptorForKeypoints, FindModelSpaceCorrespondences,
           ClusteringUsingHough3D, OutputResults]
          @ (case outputResults (final (main lib argv)) of
               Inl e \<Rightarrow> [] | Inr report \<Rightarrow> [Visualization])
      \<and> status (main lib argv) =
          (case outputResults (final (main lib argv)) of
             Inl e \<Rightarrow> Failed e
           | Inr report \<Rightarrow>
               (case visualization lib (final (main lib argv)) of
                  None \<Rightarrow> NotStopped
                | Some (Inl e) \<Rightarrow> Failed e
                | Some (Inr drawn) \<Rightarrow> Returned 0)))"
proof (intro conjI impI allI)
  assume "find_switch lib argv ''-h''"
  then show "status (main lib argv) = Returned 0" "stages (main lib argv) = []"
    by (simp_all add: main_def parseCommandLine_cases(1))
next
  assume "\<not> find_switch lib argv ''-h''
    \<and> length (parse_file_extension_argument lib argv ''.pcd'') \<noteq> 2"
  then show "status (main lib argv) = Returned (- 1)" "stages (main lib argv) = []"
    by (simp_all add: main_def parseCommandLine_cases(2))
next
  assume "\<not> find_switch lib argv ''-h''
    \<and> length (parse_file_extension_argument lib argv ''.pcd'') = 2"
  then show "\<exists>g. parseCommandLine lib argv initial_globals = Inr g"
    by (simp add: parseCommandLine_cases(3))
next
  fix g g'
  assume "parseCommandLine lib argv initial_globals = Inr g \<and> loadClouds lib g = (False, g')"
  then show "status (main lib argv) = Returned (- 1)" "stages (main lib argv) = [LoadClouds]"
    by (simp_all add: main_def)
next
  fix g g'
  assume a: "parseCommandLine lib argv initial_globals = Inr g \<and> loadClouds lib g = (True, g')"
  then have p: "parseCommandLine lib argv initial_globals = Inr g"
    and l: "loadClouds lib g = (True, g')"
    by simp_all
  show "final (main lib argv) =
        clusteringUsingHough3D lib (findModelSpaceCorrespondences lib
          (computeDescriptorForKeypoints lib (extractKeypoints lib
            (computeNormals lib (setUpResolution lib g')))))"
    by (rule main_loaded(1) [OF p l])
  show "stages (main lib argv) =
          [LoadClouds, SetUpResolution, ComputeNormals, ExtractKeypoints,
           ComputeDescriptorForKeypoints, FindModelSpaceCorrespondences,
           ClusteringUsingHough3D, OutputResults]
          @ (case outputResults (final (main lib argv)) of
               Inl e \<Rightarrow> [] | Inr report \<Rightarrow> [Visualization])"
    by (rule main_loaded(4) [OF p l])
  show "status (main lib argv) =
          (case outputResults (final (main lib argv)) of
             Inl e \<Rightarrow> Failed e
           | Inr report \<Rightarrow>
               (case visualization lib (final (main lib argv)) of
                  None \<Rightarrow> NotStopped
                | Some (Inl e) \<Rightarrow> Failed e
                | Some (Inr drawn) \<Rightarrow> Returned 0))"
    by (rule main_loaded(3) [OF p l])
qed

text \<open>
  With two files that load, no options, and a single point in each cloud: the command line
  is accepted, both clouds are loaded, the state at the end holds the keypoints that the
  sampler returned, and the run calls all nine stages and returns 0.
\<close>

theorem main_exits_example:
  "\<not> find_switch example_pcl_single example_argv_plain ''-h''
   \<and> length (parse_file_extension_argument example_pcl_single example_argv_plain ''.pcd'') = 2
   \<and> model_keypoints (final (main example_pcl_single example_argv_plain)) = example_cloud_single
   \<and> stages (main example_pcl_single example_argv_plain) =
       [LoadClouds, SetUpResolution, ComputeNormals, ExtractKeypoints,
        ComputeDescriptorForKeypoints, FindModelSpaceCorrespondences,
        ClusteringUsingHough3D, OutputResults, Visualization]
   \<and> status (main example_pcl_single example_argv_plain) = Returned 0"
proof -
  note t = main_exits [of example_pcl_single example_argv_plain]
  have h: "\<not> find_switch example_pcl_single example_argv_plain ''-h''"
    and c: "length (parse_file_extension_argument example_pcl_single example_argv_plain
              ''.pcd'') = 2"
    by (simp_all add: example_pcl_single_def example_pcl_def example_argv_plain_def)
  from t parseCommandLine_example_plain loadClouds_example_plain
  have f: "final (main example_pcl_single example_argv_plain) =
        clusteringUsingHough3D example_pcl_single (findModelSpaceCorrespondences example_pcl_single
          (computeDescriptorForKeypoints example_pcl_single (extractKeypoints example_pcl_single
            (computeNormals example_pcl_single (setUpResolution example_pcl_single
              (initial_globals\<lparr>model_filename := ''model.pcd'', scene_filename := ''scene.pcd'',
                 model := example_cloud_single, scene := example_cloud_single\<rparr>))))))"
    and s: "stages (main example_pcl_single example_argv_plain) =
          [LoadClouds, SetUpResolution, ComputeNormals, ExtractKeypoints,
           ComputeDescriptorForKeypoints, FindModelSpaceCorrespondences,
           ClusteringUsingHough3D, OutputResults]
          @ (case outputResults (final (main example_pcl_single example_argv_plain)) of
               Inl e \<Rightarrow> [] | Inr report \<Rightarrow> [Visualization])"
    and u: "status (main example_pcl_single example_argv_plain) =
          (case outputResults (final (main example_pcl_single example_argv_plain)) of
             Inl e \<Rightarrow> Failed e
           | Inr report \<Rightarrow>
               (case visualization example_pcl_single
                       (final (main example_pcl_single example_argv_plain)) of
                  None \<Rightarrow> NotStopped
                | Some (Inl e) \<Rightarrow> Failed e
                | Some (Inr drawn) \<Rightarrow> Returned 0))"
    by blast+
  have none: "rototranslations (final (main example_pcl_single example_argv_plain)) = []"
    by (simp add: f no_instance_example)
  have keypoints: "model_keypoints (final (main example_pcl_single example_argv_plain)) =
      example_cloud_single"
    unfolding f processing_stages(3)
    by (simp add: setUpResolution_def example_pcl_single_def example_pcl_def Let_def
        initial_globals_def)
  from s u have "stages (main example_pcl_single example_argv_plain) =
       [LoadClouds, SetUpResolution, ComputeNormals, ExtractKeypoints,
        ComputeDescriptorForKeypoints, FindModelSpaceCorrespondences,
        ClusteringUsingHough3D, OutputResults, Visualization]"
    "status (main example_pcl_single example_argv_plain) = Returned 0"
    by (simp_all add: outputResults_no_instance [OF none]
        visualization_no_instance [OF none wasStopped_example(2)])
  with h c keypoints show ?thesis
    by simp
qed

text \<open>
  The statement that a radius \<open>\<le> 0\<close> makes the program fail fast does not hold: with
  \<open>--model_ss -1\<close> on the command line the model sampling radius is read as -1, the
  resolution of the cloud is 2, the sampler is called with radius -2 and its keypoints
  are in the state at the end, and the run calls all nine stages and returns 0.
\<close>

theorem main_negative_radius_example:
  "map_sum id model_ss (parseCommandLine example_pcl example_argv initial_globals) =
     Inr (Finite (- 1))
   \<and> float_less (Finite (- 1)) (Finite 0)
   \<and> model_ss (final (main example_pcl example_argv)) = Finite (- 2)
   \<and> model_keypoints (final (main example_pcl example_argv)) =
       UniformSampling example_pcl example_cloud (Finite (- 2))
   \<and> status (main example_pcl example_argv) = Returned 0
   \<and> stages (main example_pcl example_argv) =
       [LoadClouds, SetUpResolution, ComputeNormals, ExtractKeypoints,
        ComputeDescriptorForKeypoints, FindModelSpaceCorrespondences,
        ClusteringUsingHough3D, OutputResults, Visualization]"
proof -
  note m = main_loaded [OF parseCommandLine_example loadClouds_example]
  have r: "computeCloudResolution (KdTree example_pcl) example_cloud = Finite 2"
    by (simp add: example_pcl_def computeCloudResolution_example)
  have none: "rototranslations (final (main example_pcl example_argv)) = []"
    by (simp add: m(1) no_instance_example)
  have radius: "model_ss (final (main example_pcl example_argv)) = Finite (- 2)"
    using processing_stages(10) [of example_pcl "setUpResolution example_pcl
        (initial_globals\<lparr>model_filename := ''model.pcd'', scene_filename := ''scene.pcd'',
           model_ss := Finite (- 1), model := example_cloud, scene := example_cloud\<rparr>)",
        folded m(1)]
    by (simp add: parameters_def setUpResolution_def r float_neq_def Let_def)
  have keypoints: "model_keypoints (final (main example_pcl example_argv)) =
       UniformSampling example_pcl example_cloud (Finite (- 2))"
    unfolding m(1) processing_stages(3)
    by (simp add: setUpResolution_def r float_neq_def Let_def)
  from m(3) m(4) have "status (main example_pcl example_argv) = Returned 0"
    "stages (main example_pcl example_argv) =
       [LoadClouds, SetUpResolution, ComputeNormals, ExtractKeypoints,
        ComputeDescriptorForKeypoints, FindModelSpaceCorrespondences,
        ClusteringUsingHough3D, OutputResults, Visualization]"
    by (simp_all add: outputResults_no_instance [OF none]
        visualization_no_instance [OF none wasStopped_example(1)])
  with radius keypoints show ?thesis
    by (simp add: parseCommandLine_example)
qed

section \<open>The keypoint sampler of the specification\<close>












end
